theory Spec2Isabelle
  imports Complex_Main "HOL-Library.Sublist" "HOL-Library.Product_Lexorder"
begin

section \<open>The Tencent sheet parser (\<^verbatim>\<open>src/main.py\<close>, class \<^verbatim>\<open>TencentSheetParser\<close>)\<close>

text \<open>
  Modelling conventions.
  \<^item> Python strings are \<open>string\<close>; the commands of the action log are taken to be ASCII
    text, so the regular expression's \<^verbatim>\<open>\d\<close> is one of the ten characters 0..9.
  \<^item> Python's \<^verbatim>\<open>int\<close> of a digit string is an unbounded natural number; the
    interpreter's limit on the number of digits of one conversion is not modelled.
  \<^item> A coordinate is the exact decimal value of its text, a \<open>rat\<close>: neither the
    rounding of \<^verbatim>\<open>float\<close> to a binary double nor its overflow to infinity is
    modelled. \<^verbatim>\<open>y_tolerance\<close> is annotated \<^verbatim>\<open>int\<close> in the source, which Python does
    not enforce; it is a \<open>rat\<close> here.
  \<^item> A raised exception is the \<open>Inl\<close> of a result \<open>error + 'a\<close>.
  \<^item> Logging has no effect on any result and is left out.
  \<^item> A method name loses its leading underscore.
\<close>

subsection \<open>Data\<close>

datatype error = ValueError | AttributeError

text \<open>The dictionaries appended to \<^verbatim>\<open>extracted_data\<close> (keys text, x, y, style).\<close>

record fragment =
  f_text :: string
  f_x :: rat
  f_y :: rat
  f_style :: "string option"

text \<open>
  A \<^verbatim>\<open>pandas.DataFrame\<close> of strings: its column labels and its rows.
  \<^verbatim>\<open>pd.DataFrame()\<close> has neither.
\<close>

record dataframe =
  headers :: "string list"
  rows :: "string list list"

definition empty_dataframe :: dataframe where
  "empty_dataframe = \<lparr>headers = [], rows = []\<rparr>"

text \<open>\<^verbatim>\<open>DataFrame.empty\<close>: true when either axis has length 0.\<close>

definition df_empty :: "dataframe \<Rightarrow> bool" where
  "df_empty d = (headers d = [] \<or> rows d = [])"

text \<open>
  The decoded record: \<^verbatim>\<open>record_json['flyweight']['texts']\<close> and
  \<^verbatim>\<open>record_json['actions']\<close>. A missing key is \<open>None\<close>; \<open>flyweight = Some None\<close> is a
  \<^verbatim>\<open>flyweight\<close> dictionary without the key \<^verbatim>\<open>texts\<close>.
\<close>

record record_json =
  flyweight :: "string list option option"
  actions :: "string option"

text \<open>
  The parser object. Of the HTTP session only the header that \<^verbatim>\<open>__init__\<close> sets is kept.
\<close>

record parser =
  df :: "dataframe option"
  url :: string
  y_tolerance :: rat
  session_headers :: "(string \<times> string) list"

subsection \<open>\<^verbatim>\<open>__init__\<close>\<close>

definition sheet_prefix :: string where
  "sheet_prefix = ''https://docs.qq.com/sheet/''"

definition user_agent :: string where
  "user_agent = ''Mozilla/5.0 (Windows NT 10.0; Win64; x64) AppleWebKit/537.36 (KHTML, like Gecko) Chrome/91.0.4472.124 Safari/537.36''"

definition init :: "string \<Rightarrow> rat \<Rightarrow> error + parser" where
  "init u tol =
     (if \<not> prefix sheet_prefix u then Inl ValueError
      else Inr \<lparr>df = None, url = u, y_tolerance = tol,
                session_headers = [(''User-Agent'', user_agent)]\<rparr>)"

subsection \<open>The command pattern \<^verbatim>\<open>q\[(\d+),([\d.]+),([\d.]+)]\<close>\<close>

definition is_digit :: "char \<Rightarrow> bool" where
  "is_digit c = (c \<in> set ''0123456789'')"

definition is_digit_or_dot :: "char \<Rightarrow> bool" where
  "is_digit_or_dot c = (is_digit c \<or> c = CHR ''.'')"

text \<open>One literal character of the pattern: the rest of the text after it.\<close>

fun lit :: "char \<Rightarrow> string \<Rightarrow> string option" where
  "lit c [] = None"
| "lit c (d # s) = (if c = d then Some s else None)"

text \<open>
  A group \<^verbatim>\<open>(C+)\<close>: the longest non-empty run of characters of the class, and the rest.
  Each group of the pattern is followed by a literal outside its class, so the greedy
  match with backtracking can only succeed on the longest run.
\<close>

definition run1 :: "(char \<Rightarrow> bool) \<Rightarrow> string \<Rightarrow> (string \<times> string) option" where
  "run1 P s = (if takeWhile P s = [] then None else Some (takeWhile P s, dropWhile P s))"

text \<open>
  \<^verbatim>\<open>_Q_COMMAND_PATTERN.match(cmd)\<close>: anchored at the start of the command, not at its
  end. The result is the three groups.
\<close>

definition q_match :: "string \<Rightarrow> (string \<times> string \<times> string) option" where
  "q_match cmd =
     Option.bind (lit CHR ''q'' cmd) (\<lambda>s1.
     Option.bind (lit CHR ''['' s1) (\<lambda>s2.
     Option.bind (run1 is_digit s2) (\<lambda>(g1, s3).
     Option.bind (lit CHR '','' s3) (\<lambda>s4.
     Option.bind (run1 is_digit_or_dot s4) (\<lambda>(g2, s5).
     Option.bind (lit CHR '','' s5) (\<lambda>s6.
     Option.bind (run1 is_digit_or_dot s6) (\<lambda>(g3, s7).
     Option.bind (lit CHR '']'' s7) (\<lambda>s8. Some (g1, g2, g3)))))))))"

subsection \<open>\<^verbatim>\<open>int\<close> and \<^verbatim>\<open>float\<close> on the groups\<close>

definition digit_val :: "char \<Rightarrow> nat" where
  "digit_val c = of_char c - 48"

text \<open>\<^verbatim>\<open>int(s)\<close> for a string of digits.\<close>

definition py_int :: "string \<Rightarrow> nat" where
  "py_int s = foldl (\<lambda>n c. 10 * n + digit_val c) 0 s"

text \<open>
  \<^verbatim>\<open>float(s)\<close> for a string of digits and dots, the only strings the pattern hands to it:
  digits with at most one dot and at least one digit. Anything else raises
  \<^verbatim>\<open>ValueError\<close>, here \<open>None\<close>.
\<close>

definition py_float :: "string \<Rightarrow> rat option" where
  "py_float s =
     (let ip = takeWhile is_digit s in
      case dropWhile is_digit s of
        [] \<Rightarrow> (if ip = [] then None else Some (of_nat (py_int ip)))
      | c # fp \<Rightarrow>
          (if c = CHR ''.'' \<and> list_all is_digit fp \<and> \<not> (ip = [] \<and> fp = [])
           then Some (of_nat (py_int ip) + of_nat (py_int fp) / 10 ^ length fp)
           else None))"

subsection \<open>\<^verbatim>\<open>str.split(';')\<close>\<close>

fun split_acc :: "string \<Rightarrow> string \<Rightarrow> string list" where
  "split_acc cur [] = [cur]"
| "split_acc cur (c # s) =
     (if c = CHR '';'' then cur # split_acc [] s else split_acc (cur @ [c]) s)"

definition split_commands :: "string \<Rightarrow> string list" where
  "split_commands s = split_acc [] s"

subsection \<open>The extraction loop of \<^verbatim>\<open>_transform_record_to_dataframe\<close> (lines 90 to 111)\<close>

text \<open>
  The loop state is \<^verbatim>\<open>current_style_group\<close> and \<^verbatim>\<open>extracted_data\<close>. Inside the
  \<^verbatim>\<open>try\<close>, both \<^verbatim>\<open>float\<close> calls run before \<^verbatim>\<open>texts_pool[text_index]\<close>; the handler
  catches \<^verbatim>\<open>IndexError\<close> only, so a \<^verbatim>\<open>ValueError\<close> of \<^verbatim>\<open>float\<close> leaves the function.
  The index is never negative, so it is out of range exactly when it is at least the
  length of the pool.
\<close>

fun extract_loop ::
  "string list \<Rightarrow> string option \<Rightarrow> fragment list \<Rightarrow> string list \<Rightarrow> error + fragment list"
where
  "extract_loop texts_pool current_style_group extracted_data [] = Inr extracted_data"
| "extract_loop texts_pool current_style_group extracted_data (cmd # cmds) =
     (let style = (if prefix ''g'' cmd then Some cmd else current_style_group) in
      case q_match cmd of
        None \<Rightarrow> extract_loop texts_pool style extracted_data cmds
      | Some (g1, g2, g3) \<Rightarrow>
          (let text_index = py_int g1 in
           case py_float g2 of
             None \<Rightarrow> Inl ValueError
           | Some x_coord \<Rightarrow>
               (case py_float g3 of
                  None \<Rightarrow> Inl ValueError
                | Some y_coord \<Rightarrow>
                    (if text_index < length texts_pool
                     then extract_loop texts_pool style
                            (extracted_data @
                               [\<lparr>f_text = texts_pool ! text_index, f_x = x_coord,
                                 f_y = y_coord, f_style = style\<rparr>])
                            cmds
                     else extract_loop texts_pool style extracted_data cmds))))"

definition extract_fragments :: "string list \<Rightarrow> string list \<Rightarrow> error + fragment list" where
  "extract_fragments texts_pool commands = extract_loop texts_pool None [] commands"

subsection \<open>\<^verbatim>\<open>_filter_out_header_labels\<close>\<close>

text \<open>
  \<^verbatim>\<open>min(extracted_data, key=...)\<close>: one pass that replaces the best item only by a
  strictly smaller one.
\<close>

fun min_loop :: "fragment \<Rightarrow> fragment list \<Rightarrow> fragment" where
  "min_loop best [] = best"
| "min_loop best (item # items) =
     (if f_y item < f_y best then min_loop item items else min_loop best items)"

fun filter_out_header_labels :: "fragment list \<Rightarrow> fragment list" where
  "filter_out_header_labels [] = []"
| "filter_out_header_labels (first # rest) =
     (let top_most_element = min_loop first rest;
          style_to_exclude = f_style top_most_element
      in filter (\<lambda>item. f_style item \<noteq> style_to_exclude) (first # rest))"

subsection \<open>\<^verbatim>\<open>_group_data_into_rows\<close>\<close>

text \<open>
  The loop state is \<^verbatim>\<open>table_rows\<close>, \<^verbatim>\<open>current_row\<close> and \<^verbatim>\<open>last_y\<close>; the first
  argument is \<^verbatim>\<open>self.y_tolerance\<close>. Python's \<^verbatim>\<open>sorted\<close> is a stable sort, as
  \<open>sort_key\<close> is.
\<close>

fun group_loop ::
  "rat \<Rightarrow> fragment list list \<Rightarrow> fragment list \<Rightarrow> rat \<Rightarrow> fragment list \<Rightarrow> fragment list list"
where
  "group_loop tol table_rows current_row last_y [] =
     table_rows @ [sort_key f_x current_row]"
| "group_loop tol table_rows current_row last_y (item # items) =
     (if \<bar>f_y item - last_y\<bar> > tol
      then group_loop tol (table_rows @ [sort_key f_x current_row]) [item] (f_y item) items
      else group_loop tol table_rows (current_row @ [item]) (f_y item) items)"

fun group_data_into_rows :: "rat \<Rightarrow> fragment list \<Rightarrow> fragment list list" where
  "group_data_into_rows tol [] = []"
| "group_data_into_rows tol (first # rest) = group_loop tol [] [first] (f_y first) rest"

subsection \<open>The rest of \<^verbatim>\<open>_transform_record_to_dataframe\<close>\<close>

text \<open>Lines 125 to 137: from the rows of text to the data frame.\<close>

definition pad_row :: "nat \<Rightarrow> string list \<Rightarrow> string list" where
  "pad_row max_cols row =
     (if length row < max_cols then row @ replicate (max_cols - length row) ''''
      else take max_cols row)"

fun materialize :: "string list list \<Rightarrow> dataframe" where
  "materialize [] = empty_dataframe"
| "materialize (hs # data) =
     (if hs = [] then empty_dataframe
      else \<lparr>headers = hs, rows = map (pad_row (length hs)) data\<rparr>)"

text \<open>Lines 113 to 137: from the extracted fragments to the data frame.\<close>

definition fragments_to_dataframe :: "rat \<Rightarrow> fragment list \<Rightarrow> dataframe" where
  "fragments_to_dataframe tol extracted_data =
     (if extracted_data = [] then empty_dataframe
      else
        let main_data = filter_out_header_labels extracted_data;
            sorted_data = sort_key (\<lambda>item. (f_y item, f_x item)) main_data;
            table_rows_structured = group_data_into_rows tol sorted_data;
            text_rows = map (map f_text) table_rows_structured
        in materialize text_rows)"

text \<open>The whole method; a \<^verbatim>\<open>KeyError\<close> of the first block gives the empty data frame.\<close>

definition transform_record_to_dataframe :: "rat \<Rightarrow> record_json \<Rightarrow> error + dataframe" where
  "transform_record_to_dataframe tol rj =
     (case flyweight rj of
        None \<Rightarrow> Inr empty_dataframe
      | Some None \<Rightarrow> Inr empty_dataframe
      | Some (Some texts_pool) \<Rightarrow>
          (case actions rj of
             None \<Rightarrow> Inr empty_dataframe
           | Some actions_string \<Rightarrow>
               (case extract_fragments texts_pool (split_commands actions_string) of
                  Inl e \<Rightarrow> Inl e
                | Inr extracted_data \<Rightarrow> Inr (fragments_to_dataframe tol extracted_data))))"

subsection \<open>\<^verbatim>\<open>output_to\<close>\<close>

text \<open>
  The result is the returned flag and the files the call has written, in order.
  \<^verbatim>\<open>self.df\<close> is \<^verbatim>\<open>None\<close> until \<^verbatim>\<open>get_dataframe\<close> has run, and \<^verbatim>\<open>None.empty\<close>
  raises \<^verbatim>\<open>AttributeError\<close>. The writers of pandas are taken to succeed.
\<close>

datatype file_content = CsvFile dataframe | ExcelFile dataframe

definition output_to ::
  "parser \<Rightarrow> string \<Rightarrow> string \<Rightarrow> error + (bool \<times> (string \<times> file_content) list)"
where
  "output_to self file_path output_format =
     (case df self of
        None \<Rightarrow> Inl AttributeError
      | Some d \<Rightarrow>
          (if df_empty d then Inr (False, [])
           else if output_format = ''csv'' then Inr (True, [(file_path, CsvFile d)])
           else if output_format = ''excel'' then Inr (True, [(file_path, ExcelFile d)])
           else Inr (False, [])))"

subsection \<open>Notions used in the statements\<close>




text \<open>The fragments of the header-style example: A at (0, 0), B at (0, 10), C at (20, 10).\<close>

definition frag_A :: fragment where
  "frag_A = \<lparr>f_text = ''A'', f_x = 0, f_y = 0, f_style = Some ''g1''\<rparr>"

definition frag_B :: fragment where
  "frag_B = \<lparr>f_text = ''B'', f_x = 0, f_y = 10, f_style = Some ''g2''\<rparr>"

definition frag_C :: fragment where
  "frag_C = \<lparr>f_text = ''C'', f_x = 20, f_y = 10, f_style = Some ''g2''\<rparr>"

section \<open>Construction\<close>

text \<open>
  C10. A URL that does not start with \<^verbatim>\<open>https://docs.qq.com/sheet/\<close> makes the
  constructor raise \<^verbatim>\<open>ValueError\<close>, whatever the tolerance, and no parser object
  results; a URL with that prefix gives a parser holding the URL, and no error.
\<close>

theorem init_url_precondition:
  "(\<not> prefix ''https://docs.qq.com/sheet/'' u \<longrightarrow> init u tol = Inl ValueError) \<and>
   (prefix ''https://docs.qq.com/sheet/'' u \<longrightarrow>
      (\<exists>p. init u tol = Inr p \<and> url p = u \<and> df p = None))"
  by (simp add: init_def sheet_prefix_def)

theorem init_url_precondition_witness:
  "\<not> prefix ''https://docs.qq.com/sheet/'' ''http://example.com/sheet/1'' \<and>
   init ''http://example.com/sheet/1'' 5 = Inl ValueError \<and>
   prefix ''https://docs.qq.com/sheet/'' ''https://docs.qq.com/sheet/DQ1'' \<and>
   (\<exists>p. init ''https://docs.qq.com/sheet/DQ1'' 5 = Inr p \<and>
        url p = ''https://docs.qq.com/sheet/DQ1'' \<and> df p = None)"
  using init_url_precondition [of "''http://example.com/sheet/1''" 5]
    init_url_precondition [of "''https://docs.qq.com/sheet/DQ1''" 5]
  by simp





section \<open>Extraction\<close>

lemma q_match_not_g: "q_match c = Some t \<Longrightarrow> \<not> prefix ''g'' c"
  by (cases c) (auto simp: q_match_def split: if_splits)

lemma extract_loop_no_match:
  "\<forall>cmd\<in>set cmds. q_match cmd = None \<Longrightarrow> extract_loop pool st acc cmds = Inr acc"
  by (induction cmds arbitrary: st) (simp_all add: Let_def)

lemma extract_loop_skip:
  assumes "q_match c = Some (g1, g2, g3)" "length pool \<le> py_int g1"
    "py_float g2 = Some x" "py_float g3 = Some y"
  shows "extract_loop pool st acc (pre @ c # post) = extract_loop pool st acc (pre @ post)"
proof (induction pre arbitrary: st acc)
  case Nil
  from assms(1) have "\<not> prefix ''g'' c" by (rule q_match_not_g)
  with assms show ?case by simp
next
  case (Cons p pre)
  show ?case
    by (simp add: Let_def Cons.IH split: option.split prod.split)
qed

text \<open>
  C7. When no command of the action log matches the placement pattern, the
  transformation raises nothing and returns the empty data frame, whatever the text
  pool and the tolerance (also when the key \<^verbatim>\<open>flyweight\<close> or \<^verbatim>\<open>texts\<close> is missing).
\<close>

theorem no_placement_commands_empty:
  assumes "actions rj = Some actions_string"
    and "\<forall>cmd\<in>set (split_commands actions_string). q_match cmd = None"
  shows "transform_record_to_dataframe tol rj = Inr empty_dataframe"
proof (cases "flyweight rj")
  case None
  then show ?thesis by (simp add: transform_record_to_dataframe_def)
next
  case (Some t)
  show ?thesis
  proof (cases t)
    case None
    with Some show ?thesis by (simp add: transform_record_to_dataframe_def)
  next
    case (Some texts_pool)
    from assms(2) have
      "extract_fragments texts_pool (split_commands actions_string) = Inr []"
      unfolding extract_fragments_def by (rule extract_loop_no_match)
    with \<open>flyweight rj = Some t\<close> Some assms(1) show ?thesis
      by (simp add: transform_record_to_dataframe_def fragments_to_dataframe_def)
  qed
qed

theorem no_placement_commands_empty_witness:
  "q_match ''g1'' = None \<and> q_match ''f[2]'' = None \<and>
   transform_record_to_dataframe 5
     \<lparr>flyweight = Some (Some [''A'', ''B'']), actions = Some ''g1;f[2]''\<rparr> =
   Inr empty_dataframe"
proof -
  have s: "split_commands ''g1;f[2]'' = [''g1'', ''f[2]'']"
    by (simp add: split_commands_def)
  have h: "\<forall>cmd\<in>set (split_commands ''g1;f[2]''). q_match cmd = None"
    by (simp add: s q_match_def)
  have a: "actions \<lparr>flyweight = Some (Some [''A'', ''B'']), actions = Some ''g1;f[2]''\<rparr>
             = Some ''g1;f[2]''"
    by simp
  show ?thesis
    using no_placement_commands_empty [OF a h, of 5] h by (simp add: s)
qed

text \<open>
  C4 fails on the code. The pattern accepts any run of digits and dots as a coordinate,
  \<^verbatim>\<open>float\<close> rejects a run with two dots, and the handler around it catches
  \<^verbatim>\<open>IndexError\<close> only: the \<^verbatim>\<open>ValueError\<close> leaves the transformation, and the valid
  command after the bad one is never extracted.
\<close>

theorem coordinate_parse_failure_is_fatal:
  "q_match ''q[0,1.2.3,4]'' = Some (''0'', ''1.2.3'', ''4'') \<and>
   py_float ''1.2.3'' = None \<and>
   transform_record_to_dataframe 5
     \<lparr>flyweight = Some (Some [''A'', ''B'']), actions = Some ''q[0,1.2.3,4];q[1,5,6]''\<rparr> =
   Inl ValueError"
  by (simp add: transform_record_to_dataframe_def split_commands_def extract_fragments_def
      q_match_def run1_def is_digit_def is_digit_or_dot_def py_float_def)

text \<open>
  The recovery from an index out of range. A placement command whose two coordinates
  parse and whose index is at least the length of the text pool adds no fragment and
  changes nothing else: the extraction has the result it has on the commands without
  it, the fragments of the commands before and after included.
\<close>

lemma extract_skips_out_of_range:
  assumes "q_match cmd = Some (g1, g2, g3)" and "length texts_pool \<le> py_int g1"
    and "py_float g2 \<noteq> None" and "py_float g3 \<noteq> None"
  shows "extract_fragments texts_pool (before @ cmd # after) =
         extract_fragments texts_pool (before @ after)"
proof -
  from assms(3,4) obtain x y where "py_float g2 = Some x" "py_float g3 = Some y"
    by auto
  with assms(1,2) show ?thesis
    unfolding extract_fragments_def by (rule extract_loop_skip)
qed

text \<open>
  C8 fails on the code where the command with the index out of range has a coordinate
  that does not parse: \<^verbatim>\<open>float\<close> runs before the pool is read, so the command is not
  skipped. With the pool of one text, the command \<^verbatim>\<open>q[5,1.2.3,4]\<close> has the index 5 out
  of range and raises \<^verbatim>\<open>ValueError\<close>; without it the extraction returns the fragment
  of the valid command after it.
\<close>

theorem out_of_range_index_not_skipped:
  "q_match ''q[5,1.2.3,4]'' = Some (''5'', ''1.2.3'', ''4'') \<and>
   length [''A''] \<le> py_int ''5'' \<and>
   extract_fragments [''A''] [''q[5,1.2.3,4]'', ''q[0,7,8]''] = Inl ValueError \<and>
   extract_fragments [''A''] [''q[0,7,8]''] =
     Inr [\<lparr>f_text = ''A'', f_x = 7, f_y = 8, f_style = None\<rparr>]"
  by (simp add: extract_fragments_def q_match_def run1_def is_digit_def is_digit_or_dot_def
      py_float_def py_int_def digit_val_def)

section \<open>The table and its export\<close>

text \<open>
  C3. When the first row of text is not empty, it becomes the headers, the other rows
  become the data rows in order, and each data row has as many cells as there are
  headers: a shorter row is followed by empty strings, a row at least as long is cut to
  its first cells.
\<close>

theorem materialize_uniform_width:
  "hs \<noteq> [] \<Longrightarrow>
     headers (materialize (hs # data)) = hs \<and>
     length (rows (materialize (hs # data))) = length data \<and>
     (\<forall>i<length data.
        length (rows (materialize (hs # data)) ! i) = length hs \<and>
        (length (data ! i) < length hs \<longrightarrow>
           rows (materialize (hs # data)) ! i =
             data ! i @ replicate (length hs - length (data ! i)) '''') \<and>
        (length hs \<le> length (data ! i) \<longrightarrow>
           rows (materialize (hs # data)) ! i = take (length hs) (data ! i)))"
  by (simp add: pad_row_def)

theorem materialize_uniform_width_witness:
  "[''H1'', ''H2'', ''H3''] \<noteq> [] \<and>
   materialize [[''H1'', ''H2'', ''H3''], [''a'', ''b''], [''c'', ''d'', ''e'', ''f'']] =
     \<lparr>headers = [''H1'', ''H2'', ''H3''],
      rows = [[''a'', ''b'', ''''], [''c'', ''d'', ''e'']]\<rparr>"
proof -
  have h: "[''H1'', ''H2'', ''H3''] \<noteq> []" by simp
  show ?thesis
    using h materialize_uniform_width
      [OF h, of "[[''a'', ''b''], [''c'', ''d'', ''e'', ''f'']]"]
    by (simp add: pad_row_def)
qed

text \<open>
  C9, as the code has it. With a data frame that is empty (no row or no column), and
  with a data frame that is not empty and a format other than \<^verbatim>\<open>csv\<close> and
  \<^verbatim>\<open>excel\<close>, the export raises nothing: it returns \<^verbatim>\<open>False\<close>, and it writes no file.
\<close>

theorem output_to_returns_false:
  "df self = Some d \<Longrightarrow>
     (df_empty d \<longrightarrow> output_to self file_path output_format = Inr (False, [])) \<and>
     (\<not> df_empty d \<and> output_format \<noteq> ''csv'' \<and> output_format \<noteq> ''excel'' \<longrightarrow>
        output_to self file_path output_format = Inr (False, []))"
  by (simp add: output_to_def)

theorem output_to_returns_false_witness:
  "df_empty \<lparr>headers = [''B'', ''C''], rows = []\<rparr> \<and>
   output_to \<lparr>df = Some \<lparr>headers = [''B'', ''C''], rows = []\<rparr>, url = sheet_prefix,
              y_tolerance = 5, session_headers = []\<rparr> ''output.csv'' ''csv'' =
     Inr (False, []) \<and>
   \<not> df_empty \<lparr>headers = [''B''], rows = [[''1'']]\<rparr> \<and>
   output_to \<lparr>df = Some \<lparr>headers = [''B''], rows = [[''1'']]\<rparr>, url = sheet_prefix,
              y_tolerance = 5, session_headers = []\<rparr> ''output.json'' ''json'' =
     Inr (False, [])"
  using
    output_to_returns_false [of "\<lparr>df = Some \<lparr>headers = [''B'', ''C''], rows = []\<rparr>,
      url = sheet_prefix, y_tolerance = 5, session_headers = []\<rparr>"
      "\<lparr>headers = [''B'', ''C''], rows = []\<rparr>" "''output.csv''" "''csv''"]
    output_to_returns_false [of "\<lparr>df = Some \<lparr>headers = [''B''], rows = [[''1'']]\<rparr>,
      url = sheet_prefix, y_tolerance = 5, session_headers = []\<rparr>"
      "\<lparr>headers = [''B''], rows = [[''1'']]\<rparr>" "''output.json''" "''json''"]
  by (simp add: df_empty_def)

text \<open>
  C9, as the claim states it, fails: the export of a data frame without rows, and the
  export in the format \<^verbatim>\<open>json\<close>, end with the value \<^verbatim>\<open>False\<close> and not with an error.
\<close>

theorem output_to_error_counterexample:
  "output_to \<lparr>df = Some \<lparr>headers = [''B'', ''C''], rows = []\<rparr>, url = sheet_prefix,
              y_tolerance = 5, session_headers = []\<rparr> ''output.csv'' ''csv'' =
     Inr (False, []) \<and>
   output_to \<lparr>df = Some \<lparr>headers = [''B''], rows = [[''1'']]\<rparr>, url = sheet_prefix,
              y_tolerance = 5, session_headers = []\<rparr> ''output.json'' ''json'' =
     Inr (False, [])"
  by (simp add: output_to_def df_empty_def)

section \<open>The header and label filter\<close>

text \<open>
  What \<open>min_loop\<close> returns splits the list: every fragment before it has a strictly
  larger y, every fragment after it a y at least as large.
\<close>

lemma min_loop_decomp:
  "\<exists>pre post. best # items = pre @ min_loop best items # post \<and>
     (\<forall>p\<in>set pre. f_y (min_loop best items) < f_y p) \<and>
     (\<forall>p\<in>set post. f_y (min_loop best items) \<le> f_y p)"
proof (induction items arbitrary: best)
  case Nil
  have "[best] = [] @ best # [] \<and>
        (\<forall>p\<in>set []. f_y best < f_y p) \<and> (\<forall>p\<in>set []. f_y best \<le> f_y p)"
    by simp
  then show ?case unfolding min_loop.simps by blast
next
  case (Cons item items)
  show ?case
  proof (cases "f_y item < f_y best")
    case True
    from Cons.IH [of item] obtain pre post where
      d: "item # items = pre @ min_loop item items # post"
      and lo: "\<forall>p\<in>set pre. f_y (min_loop item items) < f_y p"
      and hi: "\<forall>p\<in>set post. f_y (min_loop item items) \<le> f_y p"
      by blast
    have "f_y (min_loop item items) \<le> f_y item"
    proof (cases pre)
      case Nil
      from d have "item # items = min_loop item items # post"
        unfolding Nil append_Nil .
      then have "item = min_loop item items" by (metis list.inject)
      then show ?thesis by (metis order_refl)
    next
      case (Cons a as)
      with d have "item \<in> set pre" by simp
      with lo show ?thesis by fastforce
    qed
    with True have "f_y (min_loop item items) < f_y best" by simp
    with d lo hi have
      "best # item # items = (best # pre) @ min_loop item items # post \<and>
       (\<forall>p\<in>set (best # pre). f_y (min_loop item items) < f_y p) \<and>
       (\<forall>p\<in>set post. f_y (min_loop item items) \<le> f_y p)"
      by simp
    with True show ?thesis by (metis min_loop.simps(2))
  next
    case False
    from Cons.IH [of best] obtain pre post where
      d: "best # items = pre @ min_loop best items # post"
      and lo: "\<forall>p\<in>set pre. f_y (min_loop best items) < f_y p"
      and hi: "\<forall>p\<in>set post. f_y (min_loop best items) \<le> f_y p"
      by blast
    show ?thesis
    proof (cases pre)
      case Nil
      from d have "best # items = min_loop best items # post"
        unfolding Nil append_Nil .
      then have m: "min_loop best items = best" and p: "post = items"
        by (metis list.inject)+
      with hi False have
        "best # item # items = [] @ min_loop best items # (item # items) \<and>
         (\<forall>p\<in>set []. f_y (min_loop best items) < f_y p) \<and>
         (\<forall>p\<in>set (item # items). f_y (min_loop best items) \<le> f_y p)"
        by simp
      with False show ?thesis by (metis min_loop.simps(2))
    next
      case (Cons a as)
      from d have "best # items = a # (as @ min_loop best items # post)"
        unfolding Cons append_Cons .
      then have a: "a = best" and r: "items = as @ min_loop best items # post"
        by (metis list.inject)+
      from lo Cons a have "f_y (min_loop best items) < f_y best" by simp
      with False have "f_y (min_loop best items) < f_y item" by simp
      with lo Cons a r hi have
        "best # item # items = (best # item # as) @ min_loop best items # post \<and>
         (\<forall>p\<in>set (best # item # as). f_y (min_loop best items) < f_y p) \<and>
         (\<forall>p\<in>set post. f_y (min_loop best items) \<le> f_y p)"
        by simp
      with False show ?thesis by (metis min_loop.simps(2))
    qed
  qed
qed

lemma header_example:
  "fragments_to_dataframe 5 [frag_A, frag_B, frag_C] =
     \<lparr>headers = [''B'', ''C''], rows = []\<rparr>"
  by (simp add: fragments_to_dataframe_def frag_A_def frag_B_def frag_C_def)

text \<open>
  C1. A non-empty fragment list has a topmost fragment: one of minimum y, the first of
  those in the order of the input. The filter returns, in the order of the input, the
  fragments whose style differs from the style of the topmost one, so a fragment
  without style is left out exactly when the topmost fragment has no style. On the
  example A (0, 0, g1), B (0, 10, g2), C (20, 10, g2) with tolerance 5 the data frame has
  the headers B, C and no data row.
\<close>

theorem header_label_filter:
  "(extracted_data \<noteq> [] \<longrightarrow>
      (\<exists>pre top post.
         extracted_data = pre @ top # post \<and>
         (\<forall>p\<in>set pre. f_y top < f_y p) \<and>
         (\<forall>p\<in>set post. f_y top \<le> f_y p) \<and>
         filter_out_header_labels extracted_data =
           filter (\<lambda>item. f_style item \<noteq> f_style top) extracted_data \<and>
         (\<forall>item\<in>set extracted_data. f_style item = None \<longrightarrow>
            (item \<notin> set (filter_out_header_labels extracted_data) \<longleftrightarrow>
               f_style top = None)))) \<and>
   fragments_to_dataframe 5 [frag_A, frag_B, frag_C] =
     \<lparr>headers = [''B'', ''C''], rows = []\<rparr>"
proof (intro conjI impI)
  assume "extracted_data \<noteq> []"
  then obtain first rest where xs: "extracted_data = first # rest"
    by (cases extracted_data) auto
  define top where "top = min_loop first rest"
  from min_loop_decomp [of first rest] obtain pre post where
    d: "extracted_data = pre @ top # post"
    and lo: "\<forall>p\<in>set pre. f_y top < f_y p"
    and hi: "\<forall>p\<in>set post. f_y top \<le> f_y p"
    unfolding xs top_def by blast
  have f: "filter_out_header_labels extracted_data =
             filter (\<lambda>item. f_style item \<noteq> f_style top) extracted_data"
    unfolding xs top_def by (simp add: Let_def)
  have n: "\<forall>item\<in>set extracted_data. f_style item = None \<longrightarrow>
             (item \<notin> set (filter_out_header_labels extracted_data) \<longleftrightarrow>
                f_style top = None)"
    unfolding f by auto
  from d lo hi f n show
    "\<exists>pre top post.
       extracted_data = pre @ top # post \<and>
       (\<forall>p\<in>set pre. f_y top < f_y p) \<and>
       (\<forall>p\<in>set post. f_y top \<le> f_y p) \<and>
       filter_out_header_labels extracted_data =
         filter (\<lambda>item. f_style item \<noteq> f_style top) extracted_data \<and>
       (\<forall>item\<in>set extracted_data. f_style item = None \<longrightarrow>
          (item \<notin> set (filter_out_header_labels extracted_data) \<longleftrightarrow>
             f_style top = None))"
    by blast
next
  show "fragments_to_dataframe 5 [frag_A, frag_B, frag_C] =
          \<lparr>headers = [''B'', ''C''], rows = []\<rparr>"
    by (rule header_example)
qed

theorem header_label_filter_witness:
  "[frag_A, frag_B, frag_C] \<noteq> [] \<and>
   filter_out_header_labels [frag_A, frag_B, frag_C] = [frag_B, frag_C] \<and>
   fragments_to_dataframe 5 [frag_A, frag_B, frag_C] =
     \<lparr>headers = [''B'', ''C''], rows = []\<rparr>"
  using header_label_filter [of "[frag_A, frag_B, frag_C]"]
  by (simp add: frag_A_def frag_B_def frag_C_def)

section \<open>Row reconstruction\<close>






















end
